theory Spec2Isabelle
  imports Main
begin

section \<open>The token tree handed over by the tokenizer\<close>

text \<open>
  \<^verbatim>\<open>parse_sql_columns.py\<close> walks the token tree that the \<^verbatim>\<open>sqlparse\<close> library
  builds. A leaf is a \<^verbatim>\<open>Token\<close> with a token type and its source text; a
  composite is a \<^verbatim>\<open>TokenList\<close> of some class with its children. The program
  tests a leaf's type against three token types only (\<^verbatim>\<open>Keyword\<close>,
  \<^verbatim>\<open>Token.Punctuation\<close>, \<^verbatim>\<open>Token.Text.Whitespace\<close>), by identity or equality
  and never through the type hierarchy. The tokenizer gives a line break the type
  \<^verbatim>\<open>Token.Text.Whitespace.Newline\<close>, a subtype of \<^verbatim>\<open>Token.Text.Whitespace\<close> and
  a type of its own for these tests: it is \<open>Newline\<close>. Every other token type
  (subtypes such as \<^verbatim>\<open>Keyword.DML\<close> included) is \<open>OtherType\<close>. It tests a
  composite against four
  classes (\<^verbatim>\<open>Identifier\<close>, \<^verbatim>\<open>IdentifierList\<close>, \<^verbatim>\<open>Parenthesis\<close>,
  \<^verbatim>\<open>Function\<close>), none of which inherits from another; every other class of
  composite is \<open>OtherList\<close>.
\<close>

datatype tokentype = Keyword | Punctuation | Whitespace | Newline | OtherType

datatype kind = Identifier | IdentifierList | Parenthesis | Function | OtherList

datatype token = Token tokentype string | TokenList kind "token list"

text \<open>\<^verbatim>\<open>str(t)\<close>: a leaf renders as its own text, a composite as the texts of its
  leaves from left to right.\<close>

fun str :: "token \<Rightarrow> string" where
  "str (Token ty v) = v"
| "str (TokenList k ts) = concat (map str ts)"

text \<open>\<^verbatim>\<open>t.ttype\<close>: the token type of a leaf, \<^verbatim>\<open>None\<close> on every composite.\<close>

fun ttype :: "token \<Rightarrow> tokentype option" where
  "ttype (Token ty v) = Some ty"
| "ttype (TokenList k ts) = None"

text \<open>\<^verbatim>\<open>isinstance(t, sqlparse.sql.TokenList)\<close> and \<^verbatim>\<open>isinstance(t, C)\<close> for one of
  the four classes.\<close>

fun is_TokenList :: "token \<Rightarrow> bool" where
  "is_TokenList (Token ty v) = False"
| "is_TokenList (TokenList k ts) = True"

fun isinstance :: "token \<Rightarrow> kind \<Rightarrow> bool" where
  "isinstance (Token ty v) c = False"
| "isinstance (TokenList k ts) c = (k = c)"

text \<open>A parsed statement: what \<^verbatim>\<open>get_type()\<close> reports for it (the tokenizer's
  classification, \<^verbatim>\<open>'UNKNOWN'\<close> when it has none) and its top-level tokens.\<close>

record statement =
  get_type :: string
  tokens :: "token list"

definition str_statement :: "statement \<Rightarrow> string" where
  "str_statement items = concat (map str (tokens items))"

section \<open>Strings\<close>

definition whitespace :: "char \<Rightarrow> bool" where
  "whitespace c = (c \<in> set [CHR '' '', CHR 0x09, CHR 0x0A, CHR 0x0B, CHR 0x0C, CHR 0x0D])"

text \<open>\<^verbatim>\<open>s.isspace()\<close> is false on the empty string.\<close>

definition isspace :: "string \<Rightarrow> bool" where
  "isspace s = (s \<noteq> [] \<and> list_all whitespace s)"

definition strip :: "string \<Rightarrow> string" where
  "strip s = rev (dropWhile whitespace (rev (dropWhile whitespace s)))"

section \<open>Exceptions and result records\<close>

datatype error = TypeError | ValueError | IndexError | AssertionError

datatype jvalue = Str string | Pairs "(string \<times> string) list"

text \<open>An \<^verbatim>\<open>OrderedDict\<close>: the keys in insertion order. \<^verbatim>\<open>r[k] = v\<close> replaces the
  value of a key that is present and appends a new key at the end.\<close>

type_synonym odict = "(string \<times> jvalue) list"

fun setitem :: "odict \<Rightarrow> string \<Rightarrow> jvalue \<Rightarrow> odict" where
  "setitem [] k v = [(k, v)]"
| "setitem ((k', v') # r) k v = (if k' = k then (k, v) # r else (k', v') # setitem r k v)"

section \<open>tokenize\_cols\_values\<close>

text \<open>The loop of lines 52 to 58: the column names, appended in order.\<close>

fun columns_loop :: "token list \<Rightarrow> string list \<Rightarrow> string list" where
  "columns_loop [] columns = columns"
| "columns_loop (t # ts) columns =
     (let str_t = str t in
      if isinstance t Identifier \<or> ttype t = Some Keyword
      then columns_loop ts (columns @ [str_t])
      else columns_loop ts columns)"

text \<open>The loop of lines 65 to 72: the value texts, appended in order.\<close>

fun values_loop :: "token list \<Rightarrow> string list \<Rightarrow> string list" where
  "values_loop [] vals = vals"
| "values_loop (t # ts) vals =
     (let str_t = str t in
      if ttype t \<in> set [Some Punctuation, Some Whitespace]
      then values_loop ts vals
      else values_loop ts (vals @ [str_t]))"

text \<open>\<^verbatim>\<open>[tok for tok in t if isinstance(tok, sqlparse.sql.IdentifierList)][0]\<close>
  (lines 48 and 63): iterating a leaf raises \<^verbatim>\<open>TypeError\<close>, indexing the empty list
  raises \<^verbatim>\<open>IndexError\<close>.\<close>

fun first_IdentifierList :: "token \<Rightarrow> error + token" where
  "first_IdentifierList (Token ty v) = Inl TypeError"
| "first_IdentifierList (TokenList k ts) =
     (case filter (\<lambda>tok. isinstance tok IdentifierList) ts of
        [] \<Rightarrow> Inl IndexError
      | x # xs \<Rightarrow> Inr x)"

text \<open>Iterating a node that passed an \<^verbatim>\<open>isinstance\<close> test for a composite class.\<close>

fun children :: "token \<Rightarrow> token list" where
  "children (Token ty v) = []"
| "children (TokenList k ts) = ts"

text \<open>
  Line 43 unpacks the composite children of the target group into exactly two names and
  raises \<^verbatim>\<open>ValueError\<close> on any other number. The assertion of line 76 is the last
  statement before the return; it is modelled as Python runs it by default, with
  assertions enabled.
\<close>

fun tokenize_cols_values :: "token \<Rightarrow> token \<Rightarrow> error + (string \<times> string) list" where
  "tokenize_cols_values (Token ty v) t_values_tuple = Inl TypeError"
| "tokenize_cols_values (TokenList k ts) t_values_tuple =
     (case filter is_TokenList ts of
        [t_table, t_columns] \<Rightarrow>
          (let table = str t_table in
           case first_IdentifierList t_columns of
             Inl e \<Rightarrow> Inl e
           | Inr t_column_identifiers \<Rightarrow>
               (let columns = columns_loop (children t_column_identifiers) [] in
                case first_IdentifierList t_values_tuple of
                  Inl e \<Rightarrow> Inl e
                | Inr t_values \<Rightarrow>
                    (let vals = values_loop (children t_values) [];
                         r = zip (map (\<lambda>col. table @ ''.'' @ col) columns) vals
                     in if length vals = length columns then Inr r
                        else Inl AssertionError)))
      | _ \<Rightarrow> Inl ValueError)"

section \<open>extract\_col\_values and split\_queries\<close>

text \<open>The loop of lines 27 to 31 over the statement's top-level tokens.\<close>

fun bucket_loop :: "token list \<Rightarrow> token list \<Rightarrow> token list \<Rightarrow> token list \<times> token list" where
  "bucket_loop [] t_table_and_columns_arr t_values_tuple_arr =
     (t_table_and_columns_arr, t_values_tuple_arr)"
| "bucket_loop (item # items) t_table_and_columns_arr t_values_tuple_arr =
     (if isinstance item Function
      then bucket_loop items (t_table_and_columns_arr @ [item]) t_values_tuple_arr
      else if isinstance item Parenthesis
      then bucket_loop items t_table_and_columns_arr (t_values_tuple_arr @ [item])
      else bucket_loop items t_table_and_columns_arr t_values_tuple_arr)"

text \<open>The loop of lines 34 and 35 over the zipped groups; an exception of
  \<open>tokenize_cols_values\<close> leaves the loop.\<close>

fun pairs_loop :: "(token \<times> token) list \<Rightarrow> (string \<times> string) list
    \<Rightarrow> error + (string \<times> string) list" where
  "pairs_loop [] col_value_pairs = Inr col_value_pairs"
| "pairs_loop ((t_table_and_columns, t_values_tuple) # ps) col_value_pairs =
     (case tokenize_cols_values t_table_and_columns t_values_tuple of
        Inl e \<Rightarrow> Inl e
      | Inr r \<Rightarrow> pairs_loop ps (col_value_pairs @ r))"

definition extract_col_values :: "statement \<Rightarrow> error + odict" where
  "extract_col_values items =
     (let r = [(''query'', Str (strip (str_statement items)))] in
      if get_type items = ''UNKNOWN''
      then Inr (setitem r ''error'' (Str ''Parsing failed''))
      else if get_type items \<noteq> ''INSERT''
      then Inr (setitem r ''error'' (Str (''Unsupported query type '' @ get_type items)))
      else
        (case bucket_loop (tokens items) [] [] of
           (t_table_and_columns_arr, t_values_tuple_arr) \<Rightarrow>
             (case pairs_loop (zip t_table_and_columns_arr t_values_tuple_arr) [] of
                Inl e \<Rightarrow> Inl e
              | Inr col_value_pairs \<Rightarrow> Inr (setitem r ''columns'' (Pairs col_value_pairs)))))"

text \<open>
  \<open>split_queries\<close> after the call of \<^verbatim>\<open>sqlparse.parse\<close>: the list comprehension of
  line 13 over the parsed statements. The first exception ends it, and no list is
  returned.
\<close>

fun split_queries :: "statement list \<Rightarrow> error + odict list" where
  "split_queries [] = Inr []"
| "split_queries (q # items) =
     (if isspace (str_statement q) then split_queries items
      else
        (case extract_col_values q of
           Inl e \<Rightarrow> Inl e
         | Inr r \<Rightarrow>
             (case split_queries items of
                Inl e \<Rightarrow> Inl e
              | Inr rs \<Rightarrow> Inr (r # rs))))"

section \<open>The vocabulary of the specification\<close>

text \<open>A child of a column list counts as a column when it is an \<^verbatim>\<open>Identifier\<close>
  composite or a leaf of type \<^verbatim>\<open>Keyword\<close>.\<close>

fun is_column :: "token \<Rightarrow> bool" where
  "is_column (Token ty s) = (ty = Keyword)"
| "is_column (TokenList k cs) = (k = Identifier)"

text \<open>The terminal kinds of section 3 of the specification. Both white-space types
  of the tokenizer, the plain one and the line break, are of the kind Whitespace.\<close>

datatype terminal_kind = KeywordKind | PunctuationKind | WhitespaceKind | OtherKind

fun terminalKind :: "tokentype \<Rightarrow> terminal_kind" where
  "terminalKind Keyword = KeywordKind"
| "terminalKind Punctuation = PunctuationKind"
| "terminalKind Whitespace = WhitespaceKind"
| "terminalKind Newline = WhitespaceKind"
| "terminalKind OtherType = OtherKind"

text \<open>The children of a value list that line 68 lets through: every child but the
  leaves of the very types \<^verbatim>\<open>Token.Punctuation\<close> and \<^verbatim>\<open>Token.Text.Whitespace\<close>.\<close>

fun is_value :: "token \<Rightarrow> bool" where
  "is_value (Token ty s) = (ty \<noteq> Punctuation \<and> ty \<noteq> Whitespace)"
| "is_value (TokenList k cs) = True"

text \<open>The two parallel sequences of section 4.3, step 1.\<close>

definition targetGroups :: "statement \<Rightarrow> token list" where
  "targetGroups items = filter (\<lambda>item. isinstance item Function) (tokens items)"

definition valueGroups :: "statement \<Rightarrow> token list" where
  "valueGroups items = filter (\<lambda>item. isinstance item Parenthesis) (tokens items)"

text \<open>
  The shape of a group as the tokenizer emits it. \<open>declares t a cols\<close>: the target
  group \<open>t\<close> has exactly two composite children, the table node \<open>a\<close> and after it a
  wrapper whose first \<^verbatim>\<open>IdentifierList\<close> child has the children \<open>cols\<close>.
  \<open>supplies v vals\<close>: the first \<^verbatim>\<open>IdentifierList\<close> child of the value group \<open>v\<close> has
  the children \<open>vals\<close>.
\<close>

definition declares :: "token \<Rightarrow> token \<Rightarrow> token list \<Rightarrow> bool" where
  "declares t a cols =
     (is_TokenList t \<and>
      (case filter is_TokenList (children t) of
         [a', b] \<Rightarrow>
           a' = a \<and>
           (case filter (\<lambda>tok. isinstance tok IdentifierList) (children b) of
              [] \<Rightarrow> False
            | x # xs \<Rightarrow> children x = cols)
       | _ \<Rightarrow> False))"

definition supplies :: "token \<Rightarrow> token list \<Rightarrow> bool" where
  "supplies v vals =
     (is_TokenList v \<and>
      (case filter (\<lambda>tok. isinstance tok IdentifierList) (children v) of
         [] \<Rightarrow> False
       | x # xs \<Rightarrow> children x = vals))"

text \<open>Step 4g: the columns of one group, qualified by the table text, zipped with the
  values.\<close>

definition group_pairs :: "token \<Rightarrow> token list \<Rightarrow> token list \<Rightarrow> (string \<times> string) list" where
  "group_pairs a cols vals =
     zip (map (\<lambda>c. str a @ ''.'' @ str c) (filter is_column cols))
         (map str (filter is_value vals))"

text \<open>Location by kind, in the words of section 4.3, step 4a: the one
  \<^verbatim>\<open>Identifier\<close> child and the one child that wraps an \<^verbatim>\<open>IdentifierList\<close>,
  wherever they stand among the children.\<close>

definition locate_by_kind :: "token \<Rightarrow> (token \<times> token) option" where
  "locate_by_kind t =
     (case (filter (\<lambda>c. isinstance c Identifier) (children t),
            filter (\<lambda>c. list_ex (\<lambda>x. isinstance x IdentifierList) (children c)) (children t)) of
        ([a], [b]) \<Rightarrow> Some (a, b)
      | _ \<Rightarrow> None)"

section \<open>Example statements\<close>

text \<open>The token trees of
  \<^verbatim>\<open>insert all into t1(col_a, col_b) values (1, 2) into t2(col_d, col_c) values (4, 3);\<close>
  and of its parts. A name is an \<^verbatim>\<open>Identifier\<close> around one leaf.\<close>

definition name :: "string \<Rightarrow> token" where
  "name s = TokenList Identifier [Token OtherType s]"

definition t1_target :: token where
  "t1_target = TokenList Function
     [name ''t1'',
      TokenList Parenthesis
        [Token Punctuation ''('',
         TokenList IdentifierList
           [name ''col_a'', Token Punctuation '','', Token Whitespace '' '', name ''col_b''],
         Token Punctuation '')'']]"

definition t1_values :: token where
  "t1_values = TokenList Parenthesis
     [Token Punctuation ''('',
      TokenList IdentifierList
        [Token OtherType ''1'', Token Punctuation '','', Token Whitespace '' '',
         Token OtherType ''2''],
      Token Punctuation '')'']"

definition t2_target :: token where
  "t2_target = TokenList Function
     [name ''t2'',
      TokenList Parenthesis
        [Token Punctuation ''('',
         TokenList IdentifierList
           [name ''col_d'', Token Punctuation '','', Token Whitespace '' '', name ''col_c''],
         Token Punctuation '')'']]"

definition t2_values :: token where
  "t2_values = TokenList Parenthesis
     [Token Punctuation ''('',
      TokenList IdentifierList
        [Token OtherType ''4'', Token Punctuation '','', Token Whitespace '' '',
         Token OtherType ''3''],
      Token Punctuation '')'']"

definition insert_all :: statement where
  "insert_all = \<lparr>get_type = ''INSERT'', tokens =
     [Token OtherType ''insert'', Token Whitespace '' '', Token Keyword ''all'',
      Token Whitespace '' '', Token Keyword ''into'', Token Whitespace '' '', t1_target,
      Token Whitespace '' '', Token Keyword ''values'', Token Whitespace '' '', t1_values,
      Token Whitespace '' '', Token Keyword ''into'', Token Whitespace '' '', t2_target,
      Token Whitespace '' '', Token Keyword ''values'', Token Whitespace '' '', t2_values,
      Token Punctuation '';'']\<rparr>"

definition t1_three_values :: token where
  "t1_three_values = TokenList Parenthesis
     [Token Punctuation ''('',
      TokenList IdentifierList
        [Token OtherType ''4'', Token Punctuation '','', Token Whitespace '' '',
         Token OtherType ''3'', Token Punctuation '','', Token Whitespace '' '',
         Token OtherType ''5''],
      Token Punctuation '')'']"

definition insert_mismatch :: statement where
  "insert_mismatch = \<lparr>get_type = ''INSERT'', tokens =
     [Token OtherType ''insert'', Token Whitespace '' '', Token Keyword ''into'',
      Token Whitespace '' '', t1_target, Token Whitespace '' '', Token Keyword ''values'',
      Token Whitespace '' '', t1_three_values, Token Punctuation '';'']\<rparr>"

definition select_dual :: statement where
  "select_dual = \<lparr>get_type = ''SELECT'', tokens =
     [Token OtherType ''select'', Token Whitespace '' '', Token OtherType ''1'',
      Token Whitespace '' '', Token Keyword ''from'', Token Whitespace '' '',
      name ''dual'', Token Punctuation '';'']\<rparr>"

definition one_column_target :: token where
  "one_column_target = TokenList Function
     [name ''t1'',
      TokenList Parenthesis
        [Token Punctuation ''('', name ''col_a'', Token Punctuation '')'']]"

definition one_value :: token where
  "one_value = TokenList Parenthesis
     [Token Punctuation ''('', Token OtherType ''4'', Token Punctuation '')'']"

definition insert_one_column :: statement where
  "insert_one_column = \<lparr>get_type = ''INSERT'', tokens =
     [Token OtherType ''insert'', Token Whitespace '' '', Token Keyword ''into'',
      Token Whitespace '' '', one_column_target, Token Whitespace '' '',
      Token Keyword ''values'', Token Whitespace '' '', one_value,
      Token Punctuation '';'']\<rparr>"

definition insert_select :: statement where
  "insert_select = \<lparr>get_type = ''INSERT'', tokens =
     [Token OtherType ''insert'', Token Whitespace '' '', Token Keyword ''into'',
      Token Whitespace '' '', name ''t1'', Token Whitespace '' '',
      Token OtherType ''select'', Token Whitespace '' '',
      TokenList IdentifierList
        [name ''a'', Token Punctuation '','', Token Whitespace '' '', name ''b''],
      Token Whitespace '' '', Token Keyword ''from'', Token Whitespace '' '',
      name ''t2'', Token Punctuation '';'']\<rparr>"

definition gibberish :: statement where
  "gibberish = \<lparr>get_type = ''UNKNOWN'', tokens = [name ''reiteb5yiure'']\<rparr>"

definition insert_unbalanced :: statement where
  "insert_unbalanced = \<lparr>get_type = ''INSERT'', tokens =
     [Token OtherType ''insert'', Token Whitespace '' '', Token Keyword ''all'',
      Token Whitespace '' '', Token Keyword ''into'', Token Whitespace '' '', t1_target,
      Token Whitespace '' '', Token Keyword ''values'', Token Whitespace '' '', t1_values,
      Token Whitespace '' '', Token Keyword ''into'', Token Whitespace '' '', t2_target,
      Token Punctuation '';'']\<rparr>"

definition keyword_target :: token where
  "keyword_target = TokenList Function
     [name ''t1'',
      TokenList Parenthesis
        [Token Punctuation ''('',
         TokenList IdentifierList
           [name ''q'', Token Punctuation '','', Token Whitespace '' '',
            Token Keyword ''level''],
         Token Punctuation '')'']]"

definition subquery_values :: token where
  "subquery_values = TokenList Parenthesis
     [Token Punctuation ''('', Token OtherType ''select'', Token Whitespace '' '',
      TokenList IdentifierList
        [TokenList Function
           [name ''nvl'',
            TokenList Parenthesis
              [Token Punctuation ''('',
               TokenList IdentifierList
                 [name ''a'', Token Punctuation '','', Token Whitespace '' '',
                  Token OtherType ''0''],
               Token Punctuation '')'']],
         Token Punctuation '','', Token Whitespace '' '', Token OtherType ''42''],
      Token Whitespace '' '', Token Keyword ''from'', Token Whitespace '' '',
      name ''dual'', Token Punctuation '')'']"

text \<open>The token trees of \<^verbatim>\<open>insert into t1(col_a, col_b) values (1,\<close> line
  break \<^verbatim>\<open>2);\<close> and of its value group.\<close>

definition newline_values :: token where
  "newline_values = TokenList Parenthesis
     [Token Punctuation ''('',
      TokenList IdentifierList
        [Token OtherType ''1'', Token Punctuation '','', Token Newline [CHR 0x0A],
         Token OtherType ''2''],
      Token Punctuation '')'']"

definition insert_newline :: statement where
  "insert_newline = \<lparr>get_type = ''INSERT'', tokens =
     [Token OtherType ''insert'', Token Whitespace '' '', Token Keyword ''into'',
      Token Whitespace '' '', t1_target, Token Whitespace '' '', Token Keyword ''values'',
      Token Whitespace '' '', newline_values, Token Punctuation '';'']\<rparr>"

lemmas example_defs =
  insert_all_def t1_target_def t1_values_def t2_target_def t2_values_def name_def

section \<open>The loops as list functions\<close>

lemma is_column_iff: "is_column t = (isinstance t Identifier \<or> ttype t = Some Keyword)"
  by (cases t) auto

lemma is_value_iff: "is_value t = (ttype t \<notin> set [Some Punctuation, Some Whitespace])"
  by (cases t) auto

lemma columns_loop_eq: "columns_loop ts acc = acc @ map str (filter is_column ts)"
  by (induction ts arbitrary: acc) (simp_all add: is_column_iff Let_def)

lemma values_loop_eq: "values_loop ts acc = acc @ map str (filter is_value ts)"
  by (induction ts arbitrary: acc) (simp_all add: is_value_iff Let_def)

lemma bucket_loop_eq:
  "bucket_loop ts ta va =
     (ta @ filter (\<lambda>item. isinstance item Function) ts,
      va @ filter (\<lambda>item. isinstance item Parenthesis) ts)"
proof (induction ts arbitrary: ta va)
  case Nil
  show ?case by simp
next
  case (Cons item ts)
  show ?case by (cases item) (auto simp: Cons.IH)
qed

lemma pairs_loop_Inr:
  "(pairs_loop ps acc = Inr r) =
     (\<exists>rs. list_all2 (\<lambda>(t, v) g. tokenize_cols_values t v = Inr g) ps rs \<and> r = acc @ concat rs)"
proof (induction ps arbitrary: acc)
  case Nil
  show ?case by auto
next
  case (Cons p ps)
  obtain t v where p: "p = (t, v)" by (cases p)
  show ?case
  proof (cases "tokenize_cols_values t v")
    case (Inl e)
    then show ?thesis by (auto simp: p list_all2_Cons1)
  next
    case (Inr g)
    then show ?thesis by (auto simp: p Cons.IH list_all2_Cons1)
  qed
qed

lemma pairs_loop_first_failure:
  assumes "\<forall>(t', v') \<in> set ps. \<exists>g. tokenize_cols_values t' v' = Inr g"
      and "tokenize_cols_values t v = Inl e"
  shows "pairs_loop (ps @ (t, v) # rest) acc = Inl e"
  using assms by (induction ps arbitrary: acc) auto

lemma pairs_loop_some_failure:
  assumes "(t, v) \<in> set ps" and "tokenize_cols_values t v = Inl e"
  shows "\<exists>e'. pairs_loop ps acc = Inl e'"
  using assms
proof (induction ps arbitrary: acc)
  case Nil
  then show ?case by simp
next
  case (Cons p ps)
  obtain t' v' where p: "p = (t', v')" by (cases p)
  show ?case
  proof (cases "tokenize_cols_values t' v'")
    case (Inl e'')
    then show ?thesis by (simp add: p)
  next
    case (Inr g)
    with Cons show ?thesis by (auto simp: p)
  qed
qed

lemma extract_INSERT:
  assumes "get_type items = ''INSERT''"
  shows "extract_col_values items =
     (case pairs_loop (zip (targetGroups items) (valueGroups items)) [] of
        Inl e \<Rightarrow> Inl e
      | Inr col_value_pairs \<Rightarrow>
          Inr [(''query'', Str (strip (str_statement items))),
               (''columns'', Pairs col_value_pairs)])"
  using assms
  by (simp add: extract_col_values_def bucket_loop_eq targetGroups_def valueGroups_def
      split: sum.splits)

lemma split_queries_first_failure:
  assumes "\<forall>q \<in> set pre. isspace (str_statement q) \<or> (\<exists>r. extract_col_values q = Inr r)"
      and "\<not> isspace (str_statement st)" and "extract_col_values st = Inl e"
  shows "split_queries (pre @ st # post) = Inl e"
  using assms by (induction pre) auto

lemma split_queries_some_failure:
  assumes "st \<in> set sts" and "\<not> isspace (str_statement st)"
      and "extract_col_values st = Inl e"
  shows "\<exists>e'. split_queries sts = Inl e'"
  using assms
proof (induction sts)
  case Nil
  then show ?case by simp
next
  case (Cons q sts)
  show ?case
  proof (cases "st = q")
    case True
    with Cons.prems show ?thesis by simp
  next
    case False
    with Cons obtain e' where "split_queries sts = Inl e'" by auto
    then show ?thesis by (auto split: sum.splits)
  qed
qed

lemma tokenize_declared:
  assumes "declares t a cols" and "supplies v vals"
  shows "tokenize_cols_values t v =
     (if length (filter is_value vals) = length (filter is_column cols)
      then Inr (group_pairs a cols vals) else Inl AssertionError)"
proof -
  from assms(1) obtain k ts where t: "t = TokenList k ts"
    by (cases t) (auto simp: declares_def)
  from assms(1) obtain b x xs where
    ab: "filter is_TokenList ts = [a, b]" and
    x: "filter (\<lambda>tok. isinstance tok IdentifierList) (children b) = x # xs" and
    cols: "children x = cols"
    by (auto simp: declares_def t split: list.splits)
  have "b \<in> set (filter is_TokenList ts)" by (simp add: ab)
  then have "is_TokenList b" by simp
  then obtain kb bs where b: "b = TokenList kb bs" by (cases b) auto
  from assms(2) obtain k' vs where v: "v = TokenList k' vs"
    by (cases v) (auto simp: supplies_def)
  from assms(2) obtain y ys where
    y: "filter (\<lambda>tok. isinstance tok IdentifierList) vs = y # ys" and
    vals: "children y = vals"
    by (auto simp: supplies_def v split: list.splits)
  from x have x': "filter (\<lambda>tok. isinstance tok IdentifierList) bs = x # xs"
    by (simp add: b)
  show ?thesis
    by (simp add: t v ab b x' y cols vals columns_loop_eq values_loop_eq group_pairs_def
        comp_def)
qed


lemma failing_pair_fails_statement:
  assumes "tokenize_cols_values t v = Inl e" and "get_type items = ''INSERT''"
      and "(t, v) \<in> set (zip (targetGroups items) (valueGroups items))"
  shows "\<exists>e'. extract_col_values items = Inl e'"
proof -
  from pairs_loop_some_failure [OF assms(3) assms(1)]
  obtain e' where "pairs_loop (zip (targetGroups items) (valueGroups items)) [] = Inl e'"
    by blast
  then show ?thesis by (simp add: extract_INSERT [OF assms(2)])
qed

lemma first_failing_pair_fails_statement:
  assumes "tokenize_cols_values t v = Inl e" and "get_type items = ''INSERT''"
      and "zip (targetGroups items) (valueGroups items) = ps @ (t, v) # rest"
      and "\<forall>(t', v') \<in> set ps. \<exists>g. tokenize_cols_values t' v' = Inr g"
  shows "extract_col_values items = Inl e"
  by (simp add: extract_INSERT [OF assms(2)] assms(3)
      pairs_loop_first_failure [OF assms(4) assms(1)])

lemma tokenize_no_IdentifierList:
  assumes "filter is_TokenList ts = [a, b]"
      and "filter (\<lambda>tok. isinstance tok IdentifierList) (children b) = [] \<or>
           is_TokenList v \<and> filter (\<lambda>tok. isinstance tok IdentifierList) (children v) = []"
  shows "tokenize_cols_values (TokenList k ts) v = Inl IndexError"
proof -
  have "b \<in> set (filter is_TokenList ts)" by (simp add: assms(1))
  then have "is_TokenList b" by simp
  then obtain kb bs where b: "b = TokenList kb bs" by (cases b) auto
  show ?thesis
  proof (cases "filter (\<lambda>tok. isinstance tok IdentifierList) bs")
    case Nil
    then show ?thesis by (simp add: assms(1) b)
  next
    case (Cons x xs)
    with assms(2) obtain k' vs where v: "v = TokenList k' vs"
      and vs: "filter (\<lambda>tok. isinstance tok IdentifierList) vs = []"
      by (cases v) (auto simp: b)
    show ?thesis by (simp add: assms(1) b Cons v vs)
  qed
qed

lemma extract_not_INSERT:
  assumes "get_type items \<noteq> ''INSERT''"
  shows "extract_col_values items =
     Inr [(''query'', Str (strip (str_statement items))),
          (''error'', Str (if get_type items = ''UNKNOWN'' then ''Parsing failed''
                           else ''Unsupported query type '' @ get_type items))]"
  using assms by (simp add: extract_col_values_def)

lemma split_queries_append:
  "split_queries (xs @ ys) =
     (case split_queries xs of
        Inl e \<Rightarrow> Inl e
      | Inr rs1 \<Rightarrow> (case split_queries ys of Inl e \<Rightarrow> Inl e | Inr rs2 \<Rightarrow> Inr (rs1 @ rs2)))"
  by (induction xs) (auto split: sum.splits)

lemma zip_by_index:
  "zip xs ys = map (\<lambda>i. (xs ! i, ys ! i)) [0..<min (length xs) (length ys)]"
  by (rule nth_equalityI) simp_all

lemma filter_through_TokenList:
  assumes "\<And>c. P c \<Longrightarrow> is_TokenList c"
  shows "filter P ts = filter P (filter is_TokenList ts)"
proof -
  have "(\<lambda>c. is_TokenList c \<and> P c) = P"
    using assms by auto
  then show ?thesis by (simp add: conj_commute)
qed

lemma tokenize_only_composites:
  assumes "filter is_TokenList ts = [a, b]"
  shows "tokenize_cols_values (TokenList k ts) v =
         tokenize_cols_values (TokenList Function [a, b]) v"
proof -
  have "a \<in> set (filter is_TokenList ts)" and "b \<in> set (filter is_TokenList ts)"
    by (simp_all add: assms)
  then have "is_TokenList a" and "is_TokenList b" by simp_all
  then have "filter is_TokenList [a, b] = [a, b]" by simp
  then show ?thesis by (simp add: assms)
qed

section \<open>Column and value pairs of an INSERT\<close>




section \<open>Pairing of the groups\<close>

text \<open>
  Claim C5. For an INSERT statement the scan of the top-level tokens puts every
  \<^verbatim>\<open>Function\<close> node into the target groups and every \<^verbatim>\<open>Parenthesis\<close> node
  into the value groups, both in order. Extraction then runs over the pairs of the
  groups at equal positions, up to the length of the shorter sequence: it returns a
  record exactly when each of these pairs is tokenized, with the concatenated pairs as
  its columns. Groups past the shorter sequence play no part.
\<close>

theorem groups_are_paired_by_position:
  assumes "get_type items = ''INSERT''"
  shows "bucket_loop (tokens items) [] [] = (targetGroups items, valueGroups items)
    \<and> extract_col_values items =
        (case pairs_loop
                (map (\<lambda>i. (targetGroups items ! i, valueGroups items ! i))
                   [0..<min (length (targetGroups items)) (length (valueGroups items))]) [] of
           Inl e \<Rightarrow> Inl e
         | Inr col_value_pairs \<Rightarrow>
             Inr [(''query'', Str (strip (str_statement items))),
                  (''columns'', Pairs col_value_pairs)])
    \<and> (extract_col_values items = Inr r) =
        (\<exists>rs. length rs = min (length (targetGroups items)) (length (valueGroups items)) \<and>
           (\<forall>i < length rs.
              tokenize_cols_values (targetGroups items ! i) (valueGroups items ! i) =
                Inr (rs ! i)) \<and>
           r = [(''query'', Str (strip (str_statement items))),
                (''columns'', Pairs (concat rs))])"
proof -
  let ?T = "targetGroups items" and ?V = "valueGroups items"
  have b: "bucket_loop (tokens items) [] [] = (?T, ?V)"
    by (simp add: bucket_loop_eq targetGroups_def valueGroups_def)
  have e: "extract_col_values items =
        (case pairs_loop
                (map (\<lambda>i. (?T ! i, ?V ! i)) [0..<min (length ?T) (length ?V)]) [] of
           Inl e \<Rightarrow> Inl e
         | Inr col_value_pairs \<Rightarrow>
             Inr [(''query'', Str (strip (str_statement items))),
                  (''columns'', Pairs col_value_pairs)])"
    unfolding extract_INSERT [OF assms] by (subst zip_by_index) (rule refl)
  have l: "list_all2 (\<lambda>(t, v) g. tokenize_cols_values t v = Inr g) (zip ?T ?V) rs =
      (length rs = min (length ?T) (length ?V) \<and>
       (\<forall>i < length rs. tokenize_cols_values (?T ! i) (?V ! i) = Inr (rs ! i)))" for rs
  proof (cases "length rs = min (length ?T) (length ?V)")
    case True
    show ?thesis
      unfolding list_all2_conv_all_nth by (simp add: True)
  next
    case False
    then show ?thesis
      by (auto simp: list_all2_conv_all_nth)
  qed
  have i: "(extract_col_values items = Inr r) =
        (\<exists>rs. length rs = min (length ?T) (length ?V) \<and>
           (\<forall>i < length rs. tokenize_cols_values (?T ! i) (?V ! i) = Inr (rs ! i)) \<and>
           r = [(''query'', Str (strip (str_statement items))),
                (''columns'', Pairs (concat rs))])"
  proof -
    have "(extract_col_values items = Inr r) =
        (\<exists>c. pairs_loop (zip ?T ?V) [] = Inr c \<and>
           r = [(''query'', Str (strip (str_statement items))), (''columns'', Pairs c)])"
      by (auto simp: extract_INSERT [OF assms] split: sum.splits)
    also have "\<dots> =
        (\<exists>rs. list_all2 (\<lambda>(t, v) g. tokenize_cols_values t v = Inr g) (zip ?T ?V) rs \<and>
           r = [(''query'', Str (strip (str_statement items))),
                (''columns'', Pairs (concat rs))])"
      by (auto simp: pairs_loop_Inr)
    finally show ?thesis
      unfolding l by simp
  qed
  from b e i show ?thesis by blast
qed


theorem groups_are_paired_by_position_witness:
  "get_type insert_unbalanced = ''INSERT'' \<and>
   targetGroups insert_unbalanced = [t1_target, t2_target] \<and>
   valueGroups insert_unbalanced = [t1_values] \<and>
   bucket_loop (tokens insert_unbalanced) [] [] = ([t1_target, t2_target], [t1_values]) \<and>
   extract_col_values insert_unbalanced =
     Inr [(''query'', Str ''insert all into t1(col_a, col_b) values (1, 2) into t2(col_d, col_c);''),
          (''columns'', Pairs [(''t1.col_a'', ''1''), (''t1.col_b'', ''2'')])]"
proof -
  have ty: "get_type insert_unbalanced = ''INSERT''"
    by (simp add: insert_unbalanced_def)
  have T: "targetGroups insert_unbalanced = [t1_target, t2_target]"
    by (simp add: insert_unbalanced_def targetGroups_def t1_target_def t2_target_def
        t1_values_def)
  have V: "valueGroups insert_unbalanced = [t1_values]"
    by (simp add: insert_unbalanced_def valueGroups_def t1_target_def t2_target_def
        t1_values_def)
  have q: "strip (str_statement insert_unbalanced) =
      ''insert all into t1(col_a, col_b) values (1, 2) into t2(col_d, col_c);''"
    by (simp add: insert_unbalanced_def t1_target_def t2_target_def t1_values_def name_def
        strip_def str_statement_def whitespace_def)
  have p: "tokenize_cols_values t1_target t1_values =
      Inr [(''t1.col_a'', ''1''), (''t1.col_b'', ''2'')]"
    by (simp add: t1_target_def t1_values_def name_def)
  from groups_are_paired_by_position [OF ty, of "[]"] show ?thesis
    by (simp add: ty T V q p)
qed

text \<open>
  Claim C10. An INSERT statement with no \<^verbatim>\<open>Function\<close> node and no
  \<^verbatim>\<open>Parenthesis\<close> node among its top-level tokens is extracted without an error:
  the record has the query and \<open>columns\<close> equal to the empty sequence.
\<close>

theorem insert_without_groups_has_no_columns:
  assumes "get_type items = ''INSERT''"
      and "list_all (\<lambda>item. \<not> isinstance item Function \<and> \<not> isinstance item Parenthesis)
             (tokens items)"
  shows "extract_col_values items =
           Inr [(''query'', Str (strip (str_statement items))), (''columns'', Pairs [])]"
proof -
  from assms(2) have "targetGroups items = []"
    by (simp add: targetGroups_def list_all_iff)
  then show ?thesis by (simp add: extract_INSERT [OF assms(1)])
qed


theorem insert_without_groups_has_no_columns_witness:
  "get_type insert_select = ''INSERT'' \<and>
   list_all (\<lambda>item. \<not> isinstance item Function \<and> \<not> isinstance item Parenthesis)
     (tokens insert_select) \<and>
   extract_col_values insert_select =
     Inr [(''query'', Str ''insert into t1 select a, b from t2;''), (''columns'', Pairs [])]"
proof -
  have ty: "get_type insert_select = ''INSERT''"
    by (simp add: insert_select_def)
  have no: "list_all (\<lambda>item. \<not> isinstance item Function \<and> \<not> isinstance item Parenthesis)
      (tokens insert_select)"
    by (simp add: insert_select_def name_def)
  have q: "strip (str_statement insert_select) = ''insert into t1 select a, b from t2;''"
    by (simp add: insert_select_def name_def strip_def str_statement_def whitespace_def)
  from insert_without_groups_has_no_columns [OF ty no] show ?thesis
    using ty no by (simp add: q)
qed

section \<open>Exceptions that end the run\<close>

text \<open>
  Claim C2. When a target group and a value group have the tokenizer's shape and the
  number of columns kept differs from the number of values kept,
  \<open>tokenize_cols_values\<close> raises \<^verbatim>\<open>AssertionError\<close> (the structural mismatch).
  An INSERT statement that pairs the two groups then returns no record at all, and a
  run over statements that include it returns no list. When the pair is the first one
  to fail in its statement, and the statement the first to fail in the run, the run ends
  with that very \<^verbatim>\<open>AssertionError\<close>.
\<close>

theorem count_mismatch_aborts_run:
  assumes "declares t a cols" and "supplies v vals"
      and "length (filter is_column cols) \<noteq> length (filter is_value vals)"
  shows "tokenize_cols_values t v = Inl AssertionError
    \<and> (get_type items = ''INSERT'' \<and>
        (t, v) \<in> set (zip (targetGroups items) (valueGroups items)) \<longrightarrow>
          (\<exists>e. extract_col_values items = Inl e) \<and>
          (items \<in> set sts \<and> \<not> isspace (str_statement items) \<longrightarrow>
             (\<exists>e. split_queries sts = Inl e)))
    \<and> (get_type items = ''INSERT'' \<and>
        zip (targetGroups items) (valueGroups items) = ps @ (t, v) # rest \<and>
        (\<forall>(t', v') \<in> set ps. \<exists>g. tokenize_cols_values t' v' = Inr g) \<longrightarrow>
          extract_col_values items = Inl AssertionError \<and>
          (\<not> isspace (str_statement items) \<and>
           (\<forall>q \<in> set pre. isspace (str_statement q) \<or> (\<exists>r. extract_col_values q = Inr r)) \<longrightarrow>
             split_queries (pre @ items # post) = Inl AssertionError))"
proof -
  have fail: "tokenize_cols_values t v = Inl AssertionError"
    using assms(3) by (simp add: tokenize_declared [OF assms(1) assms(2)])
  have some: "\<exists>e. split_queries sts = Inl e"
    if "get_type items = ''INSERT''"
      and "(t, v) \<in> set (zip (targetGroups items) (valueGroups items))"
      and "items \<in> set sts" and "\<not> isspace (str_statement items)"
  proof -
    from failing_pair_fails_statement [OF fail that(1) that(2)]
    obtain e where "extract_col_values items = Inl e" by blast
    from split_queries_some_failure [OF that(3) that(4) this] show ?thesis .
  qed
  have first: "split_queries (pre @ items # post) = Inl AssertionError"
    if "get_type items = ''INSERT''"
      and "zip (targetGroups items) (valueGroups items) = ps @ (t, v) # rest"
      and "\<forall>(t', v') \<in> set ps. \<exists>g. tokenize_cols_values t' v' = Inr g"
      and "\<not> isspace (str_statement items)"
      and "\<forall>q \<in> set pre. isspace (str_statement q) \<or> (\<exists>r. extract_col_values q = Inr r)"
    using split_queries_first_failure [OF that(5) that(4)
        first_failing_pair_fails_statement [OF fail that(1) that(2) that(3)]] .
  show ?thesis
    using fail some first failing_pair_fails_statement [OF fail]
      first_failing_pair_fails_statement [OF fail]
    by blast
qed


theorem count_mismatch_aborts_run_witness:
  "tokenize_cols_values t1_target t1_three_values = Inl AssertionError \<and>
   extract_col_values insert_mismatch = Inl AssertionError \<and>
   split_queries [select_dual, insert_mismatch, insert_all] = Inl AssertionError"
proof -
  have d: "declares t1_target (name ''t1'')
      [name ''col_a'', Token Punctuation '','', Token Whitespace '' '', name ''col_b'']"
    by (simp add: declares_def t1_target_def name_def)
  have s: "supplies t1_three_values
      [Token OtherType ''4'', Token Punctuation '','', Token Whitespace '' '',
       Token OtherType ''3'', Token Punctuation '','', Token Whitespace '' '',
       Token OtherType ''5'']"
    by (simp add: supplies_def t1_three_values_def)
  have n: "length (filter is_column
      [name ''col_a'', Token Punctuation '','', Token Whitespace '' '', name ''col_b''])
    \<noteq> length (filter is_value
      [Token OtherType ''4'', Token Punctuation '','', Token Whitespace '' '',
       Token OtherType ''3'', Token Punctuation '','', Token Whitespace '' '',
       Token OtherType ''5''])"
    by (simp add: name_def)
  have ty: "get_type insert_mismatch = ''INSERT''"
    by (simp add: insert_mismatch_def)
  have z: "zip (targetGroups insert_mismatch) (valueGroups insert_mismatch) =
      [] @ (t1_target, t1_three_values) # []"
    by (simp add: insert_mismatch_def targetGroups_def valueGroups_def t1_target_def
        t1_three_values_def)
  have ns: "\<not> isspace (str_statement insert_mismatch)"
    by (simp add: insert_mismatch_def isspace_def str_statement_def whitespace_def)
  have pre: "\<forall>q \<in> set [select_dual].
      isspace (str_statement q) \<or> (\<exists>r. extract_col_values q = Inr r)"
    by (simp add: select_dual_def extract_col_values_def)
  from count_mismatch_aborts_run [OF d s n, where items = insert_mismatch
      and ps = "[]" and rest = "[]" and pre = "[select_dual]" and post = "[insert_all]"]
  show ?thesis using ty z ns pre by simp
qed

text \<open>
  Claim C9. A target group has exactly two composite children, and either the second
  of them (the column wrapper) or the value group has no \<^verbatim>\<open>IdentifierList\<close> child.
  Then \<open>tokenize_cols_values\<close> raises \<^verbatim>\<open>IndexError\<close>, which is not the
  assertion's error. An INSERT statement that pairs the two groups returns no record,
  and a run that includes it returns no list; when the pair is the first to fail, the
  run ends with that \<^verbatim>\<open>IndexError\<close>.
\<close>

theorem missing_IdentifierList_aborts_run:
  assumes "filter is_TokenList ts = [a, b]"
      and "filter (\<lambda>tok. isinstance tok IdentifierList) (children b) = [] \<or>
           is_TokenList v \<and> filter (\<lambda>tok. isinstance tok IdentifierList) (children v) = []"
  shows "tokenize_cols_values (TokenList k ts) v = Inl IndexError
    \<and> (get_type items = ''INSERT'' \<and>
        (TokenList k ts, v) \<in> set (zip (targetGroups items) (valueGroups items)) \<longrightarrow>
          (\<exists>e. extract_col_values items = Inl e) \<and>
          (items \<in> set sts \<and> \<not> isspace (str_statement items) \<longrightarrow>
             (\<exists>e. split_queries sts = Inl e)))
    \<and> (get_type items = ''INSERT'' \<and>
        zip (targetGroups items) (valueGroups items) = ps @ (TokenList k ts, v) # rest \<and>
        (\<forall>(t', v') \<in> set ps. \<exists>g. tokenize_cols_values t' v' = Inr g) \<longrightarrow>
          extract_col_values items = Inl IndexError \<and>
          (\<not> isspace (str_statement items) \<and>
           (\<forall>q \<in> set pre. isspace (str_statement q) \<or> (\<exists>r. extract_col_values q = Inr r)) \<longrightarrow>
             split_queries (pre @ items # post) = Inl IndexError))"
proof -
  let ?t = "TokenList k ts"
  have fail: "tokenize_cols_values ?t v = Inl IndexError"
    using assms by (rule tokenize_no_IdentifierList)
  have some: "\<exists>e. split_queries sts = Inl e"
    if "get_type items = ''INSERT''"
      and "(?t, v) \<in> set (zip (targetGroups items) (valueGroups items))"
      and "items \<in> set sts" and "\<not> isspace (str_statement items)"
  proof -
    from failing_pair_fails_statement [OF fail that(1) that(2)]
    obtain e where "extract_col_values items = Inl e" by blast
    from split_queries_some_failure [OF that(3) that(4) this] show ?thesis .
  qed
  have first: "split_queries (pre @ items # post) = Inl IndexError"
    if "get_type items = ''INSERT''"
      and "zip (targetGroups items) (valueGroups items) = ps @ (?t, v) # rest"
      and "\<forall>(t', v') \<in> set ps. \<exists>g. tokenize_cols_values t' v' = Inr g"
      and "\<not> isspace (str_statement items)"
      and "\<forall>q \<in> set pre. isspace (str_statement q) \<or> (\<exists>r. extract_col_values q = Inr r)"
    using split_queries_first_failure [OF that(5) that(4)
        first_failing_pair_fails_statement [OF fail that(1) that(2) that(3)]] .
  show ?thesis
    using fail some first failing_pair_fails_statement [OF fail]
      first_failing_pair_fails_statement [OF fail]
    by blast
qed

theorem missing_IdentifierList_aborts_run_witness:
  "tokenize_cols_values one_column_target one_value = Inl IndexError \<and>
   extract_col_values insert_one_column = Inl IndexError \<and>
   split_queries [select_dual, insert_one_column, insert_all] = Inl IndexError"
proof -
  let ?ts = "[name ''t1'', TokenList Parenthesis
        [Token Punctuation ''('', name ''col_a'', Token Punctuation '')'']]"
  have t: "one_column_target = TokenList Function ?ts"
    by (simp add: one_column_target_def)
  have c: "filter is_TokenList ?ts = [name ''t1'', TokenList Parenthesis
        [Token Punctuation ''('', name ''col_a'', Token Punctuation '')'']]"
    by (simp add: name_def)
  have n: "filter (\<lambda>tok. isinstance tok IdentifierList) (children (TokenList Parenthesis
        [Token Punctuation ''('', name ''col_a'', Token Punctuation '')''])) = [] \<or>
      is_TokenList one_value \<and>
      filter (\<lambda>tok. isinstance tok IdentifierList) (children one_value) = []"
    by (simp add: name_def)
  have ty: "get_type insert_one_column = ''INSERT''"
    by (simp add: insert_one_column_def)
  have z: "zip (targetGroups insert_one_column) (valueGroups insert_one_column) =
      [] @ (TokenList Function ?ts, one_value) # []"
    by (simp add: insert_one_column_def targetGroups_def valueGroups_def
        one_column_target_def one_value_def)
  have ns: "\<not> isspace (str_statement insert_one_column)"
    by (simp add: insert_one_column_def isspace_def str_statement_def whitespace_def)
  have pre: "\<forall>q \<in> set [select_dual].
      isspace (str_statement q) \<or> (\<exists>r. extract_col_values q = Inr r)"
    by (simp add: select_dual_def extract_col_values_def)
  from missing_IdentifierList_aborts_run [OF c n, where k = Function
      and items = insert_one_column and ps = "[]" and rest = "[]"
      and pre = "[select_dual]" and post = "[insert_all]"]
  show ?thesis using ty z ns pre by (simp add: t)
qed

section \<open>Result records\<close>



text \<open>
  Claim C8. A statement of type \<^verbatim>\<open>UNKNOWN\<close> gets the record with the error
  \<^verbatim>\<open>Parsing failed\<close>, every other statement that is not an INSERT the record with
  the error \<^verbatim>\<open>Unsupported query type\<close> followed by its type. Neither raises: in a
  run, the statements before and after are processed as without it, and its record
  stands between theirs.
\<close>

theorem statement_errors_are_scoped:
  "(get_type items = ''UNKNOWN'' \<longrightarrow>
      extract_col_values items =
        Inr [(''query'', Str (strip (str_statement items))),
             (''error'', Str ''Parsing failed'')]) \<and>
   (get_type items \<noteq> ''UNKNOWN'' \<and> get_type items \<noteq> ''INSERT'' \<longrightarrow>
      extract_col_values items =
        Inr [(''query'', Str (strip (str_statement items))),
             (''error'', Str (''Unsupported query type '' @ get_type items))]) \<and>
   (get_type items \<noteq> ''INSERT'' \<and> \<not> isspace (str_statement items) \<longrightarrow>
      (\<exists>r. extract_col_values items = Inr r \<and>
         split_queries (pre @ items # post) =
           (case split_queries pre of
              Inl e \<Rightarrow> Inl e
            | Inr rs1 \<Rightarrow>
                (case split_queries post of
                   Inl e \<Rightarrow> Inl e
                 | Inr rs2 \<Rightarrow> Inr (rs1 @ r # rs2)))))"
proof (cases "get_type items = ''INSERT''")
  case True
  then show ?thesis by simp
next
  case False
  show ?thesis
    by (auto simp: extract_not_INSERT [OF False] False split_queries_append
        split: sum.splits)
qed


theorem statement_errors_are_scoped_witness:
  "extract_col_values gibberish =
     Inr [(''query'', Str ''reiteb5yiure''), (''error'', Str ''Parsing failed'')] \<and>
   extract_col_values select_dual =
     Inr [(''query'', Str ''select 1 from dual;''),
          (''error'', Str ''Unsupported query type SELECT'')] \<and>
   split_queries ([gibberish] @ select_dual # [insert_all]) =
     Inr [[(''query'', Str ''reiteb5yiure''), (''error'', Str ''Parsing failed'')],
          [(''query'', Str ''select 1 from dual;''),
           (''error'', Str ''Unsupported query type SELECT'')],
          [(''query'', Str ''insert all into t1(col_a, col_b) values (1, 2) into t2(col_d, col_c) values (4, 3);''),
           (''columns'', Pairs [(''t1.col_a'', ''1''), (''t1.col_b'', ''2''),
                                (''t2.col_d'', ''4''), (''t2.col_c'', ''3'')])]]"
proof -
  have g: "get_type gibberish = ''UNKNOWN''"
    by (simp add: gibberish_def)
  have qg: "strip (str_statement gibberish) = ''reiteb5yiure''"
    by (simp add: gibberish_def name_def strip_def str_statement_def whitespace_def)
  have s: "get_type select_dual \<noteq> ''UNKNOWN'' \<and> get_type select_dual \<noteq> ''INSERT''"
    by (simp add: select_dual_def)
  have qs: "strip (str_statement select_dual) = ''select 1 from dual;''"
    by (simp add: select_dual_def name_def strip_def str_statement_def whitespace_def)
  have ns: "\<not> isspace (str_statement select_dual)"
    by (simp add: select_dual_def name_def isspace_def str_statement_def whitespace_def)
  have ng: "\<not> isspace (str_statement gibberish)"
    by (simp add: gibberish_def name_def isspace_def str_statement_def whitespace_def)
  have na: "\<not> isspace (str_statement insert_all)"
    by (simp add: example_defs isspace_def str_statement_def whitespace_def)
  have qa: "strip (str_statement insert_all) =
      ''insert all into t1(col_a, col_b) values (1, 2) into t2(col_d, col_c) values (4, 3);''"
    by (simp add: example_defs strip_def str_statement_def whitespace_def)
  have a: "extract_col_values insert_all =
      Inr [(''query'', Str ''insert all into t1(col_a, col_b) values (1, 2) into t2(col_d, col_c) values (4, 3);''),
           (''columns'', Pairs [(''t1.col_a'', ''1''), (''t1.col_b'', ''2''),
                                (''t2.col_d'', ''4''), (''t2.col_c'', ''3'')])]"
    unfolding extract_col_values_def qa by (simp add: example_defs)
  from statement_errors_are_scoped [of gibberish "[]" "[]"] g
  have eg: "extract_col_values gibberish =
      Inr [(''query'', Str ''reiteb5yiure''), (''error'', Str ''Parsing failed'')]"
    by (simp add: qg)
  have ts: "get_type select_dual = ''SELECT''"
    by (simp add: select_dual_def)
  note sel = statement_errors_are_scoped [of select_dual "[gibberish]" "[insert_all]"]
  from sel s have es: "extract_col_values select_dual =
      Inr [(''query'', Str ''select 1 from dual;''),
           (''error'', Str ''Unsupported query type SELECT'')]"
    by (simp add: qs ts)
  from sel s ns obtain r where "extract_col_values select_dual = Inr r"
    and run: "split_queries ([gibberish] @ select_dual # [insert_all]) =
      (case split_queries [gibberish] of
         Inl e \<Rightarrow> Inl e
       | Inr rs1 \<Rightarrow>
           (case split_queries [insert_all] of
              Inl e \<Rightarrow> Inl e
            | Inr rs2 \<Rightarrow> Inr (rs1 @ r # rs2)))"
    by blast
  with es have r: "r = [(''query'', Str ''select 1 from dual;''),
      (''error'', Str ''Unsupported query type SELECT'')]"
    by simp
  have "split_queries ([gibberish] @ select_dual # [insert_all]) =
     Inr [[(''query'', Str ''reiteb5yiure''), (''error'', Str ''Parsing failed'')],
          [(''query'', Str ''select 1 from dual;''),
           (''error'', Str ''Unsupported query type SELECT'')],
          [(''query'', Str ''insert all into t1(col_a, col_b) values (1, 2) into t2(col_d, col_c) values (4, 3);''),
           (''columns'', Pairs [(''t1.col_a'', ''1''), (''t1.col_b'', ''2''),
                                (''t2.col_d'', ''4''), (''t2.col_c'', ''3'')])]]"
    unfolding run r by (simp add: eg ng na a)
  with eg es show ?thesis by blast
qed

section \<open>Inside one group\<close>

text \<open>
  Claim C6. The walk over the children of the column list keeps a child exactly when
  it is an \<^verbatim>\<open>Identifier\<close> composite or a leaf of type \<^verbatim>\<open>Keyword\<close>, drops every
  other child, and records the source text of each kept child in order. These texts,
  qualified by the table, are the first components of the pairs of a group.
\<close>

theorem columns_are_identifiers_and_keywords:
  "columns_loop ts [] = map str (filter is_column ts) \<and>
   (\<forall>c. is_column c = ((\<exists>cs. c = TokenList Identifier cs) \<or> (\<exists>s. c = Token Keyword s))) \<and>
   (\<forall>t a v vals r.
      declares t a ts \<and> supplies v vals \<and> tokenize_cols_values t v = Inr r \<longrightarrow>
        map fst r = map (\<lambda>c. str a @ ''.'' @ str c) (filter is_column ts))"
proof -
  have 1: "columns_loop ts [] = map str (filter is_column ts)"
    by (simp add: columns_loop_eq)
  have 2: "is_column c = ((\<exists>cs. c = TokenList Identifier cs) \<or> (\<exists>s. c = Token Keyword s))"
    for c by (cases c) auto
  have 3: "map fst r = map (\<lambda>c. str a @ ''.'' @ str c) (filter is_column ts)"
    if "declares t a ts" and "supplies v vals" and "tokenize_cols_values t v = Inr r"
    for t a v vals r
    using that(3) unfolding tokenize_declared [OF that(1) that(2)]
    by (auto simp: group_pairs_def split: if_splits)
  from 1 2 3 show ?thesis by blast
qed

theorem columns_are_identifiers_and_keywords_witness:
  "columns_loop [name ''q'', Token Punctuation '','', Token Whitespace '' '',
                 Token Keyword ''level''] [] = [''q'', ''level''] \<and>
   tokenize_cols_values keyword_target subquery_values =
     Inr [(''t1.q'', ''nvl(a, 0)''), (''t1.level'', ''42'')] \<and>
   map fst [(''t1.q'', ''nvl(a, 0)''), (''t1.level'', ''42'')] = [''t1.q'', ''t1.level'']"
proof -
  let ?cols = "[name ''q'', Token Punctuation '','', Token Whitespace '' '',
                Token Keyword ''level'']"
  let ?vals = "[TokenList Function
           [name ''nvl'',
            TokenList Parenthesis
              [Token Punctuation ''('',
               TokenList IdentifierList
                 [name ''a'', Token Punctuation '','', Token Whitespace '' '',
                  Token OtherType ''0''],
               Token Punctuation '')'']],
         Token Punctuation '','', Token Whitespace '' '', Token OtherType ''42'']"
  have d: "declares keyword_target (name ''t1'') ?cols"
    by (simp add: declares_def keyword_target_def name_def)
  have s: "supplies subquery_values ?vals"
    by (simp add: supplies_def subquery_values_def name_def)
  have t: "tokenize_cols_values keyword_target subquery_values =
     Inr [(''t1.q'', ''nvl(a, 0)''), (''t1.level'', ''42'')]"
    by (simp add: keyword_target_def subquery_values_def name_def)
  from columns_are_identifiers_and_keywords [of ?cols] d s t
  show ?thesis by (simp add: name_def)
qed

text \<open>
  What the walk over the children of the value list keeps: every child, leaf or
  composite, but the leaves of the very types \<^verbatim>\<open>Token.Punctuation\<close> and
  \<^verbatim>\<open>Token.Text.Whitespace\<close>, each with its source text, in order. The text of a leaf
  is its own text and the text of a composite is the text of all its leaves, white
  space and quotes included, so that nothing inside a value is trimmed or changed. These
  texts are the second components of the pairs of a group.
\<close>

lemma values_loop_keeps:
  "values_loop ts [] = map str (filter is_value ts) \<and>
   (\<forall>c. is_value c = (\<not> (\<exists>s. c = Token Punctuation s \<or> c = Token Whitespace s))) \<and>
   (\<forall>ty s. str (Token ty s) = s) \<and>
   (\<forall>k cs. str (TokenList k cs) = concat (map str cs)) \<and>
   (\<forall>t a cols v r.
      declares t a cols \<and> supplies v ts \<and> tokenize_cols_values t v = Inr r \<longrightarrow>
        map snd r = map str (filter is_value ts))"
proof -
  have 1: "values_loop ts [] = map str (filter is_value ts)"
    by (simp add: values_loop_eq)
  have 2: "is_value c = (\<not> (\<exists>s. c = Token Punctuation s \<or> c = Token Whitespace s))"
    for c by (cases c) auto
  have 3: "map snd r = map str (filter is_value ts)"
    if "declares t a cols" and "supplies v ts" and "tokenize_cols_values t v = Inr r"
    for t a cols v r
    using that(3) unfolding tokenize_declared [OF that(1) that(2)]
    by (auto simp: group_pairs_def split: if_splits)
  from 3 have 4: "\<forall>t a cols v r.
      declares t a cols \<and> supplies v ts \<and> tokenize_cols_values t v = Inr r \<longrightarrow>
        map snd r = map str (filter is_value ts)"
    by blast
  from 1 2 4 show ?thesis by simp
qed

text \<open>
  Claim C7 against the program: a line break inside the value list. Its leaf is of the
  terminal kind Whitespace, which the claim has discarded. Line 68 compares its type
  \<^verbatim>\<open>Token.Text.Whitespace.Newline\<close> for equality with \<^verbatim>\<open>Token.Text.Whitespace\<close>, so
  the walk keeps the line break as a value of its own; the two columns then stand
  against three values and the assertion of line 76 ends the run.
\<close>

theorem newline_in_value_list_is_kept:
  "terminalKind Newline = WhitespaceKind \<and>
   values_loop
     [Token OtherType ''1'', Token Punctuation '','', Token Newline [CHR 0x0A],
      Token OtherType ''2''] [] = [''1'', [CHR 0x0A], ''2''] \<and>
   values_loop
     [Token OtherType ''1'', Token Punctuation '','', Token Whitespace '' '',
      Token OtherType ''2''] [] = [''1'', ''2''] \<and>
   tokenize_cols_values t1_target t1_values =
     Inr [(''t1.col_a'', ''1''), (''t1.col_b'', ''2'')] \<and>
   tokenize_cols_values t1_target newline_values = Inl AssertionError \<and>
   extract_col_values insert_newline = Inl AssertionError \<and>
   split_queries [insert_newline] = Inl AssertionError"
  by (simp add: insert_newline_def newline_values_def t1_target_def t1_values_def name_def
      extract_col_values_def isspace_def str_statement_def whitespace_def)

text \<open>
  Claim C3. A target group as the tokenizer emits it: among its children, with any
  leaves before, between and after them, stand one \<^verbatim>\<open>Identifier\<close> node, the table
  name, and after it one composite that wraps an \<^verbatim>\<open>IdentifierList\<close>, the column
  list. These are the only \<^verbatim>\<open>Identifier\<close> child and the only such wrapper of the
  group. Line 43 finds the two by their being composites and skips the leaves, so
  that the positions of the two among the children, the leaves and the class of the
  group itself play no part in the result. Every column of the result is qualified by
  the source text of the \<^verbatim>\<open>Identifier\<close> node.
\<close>

theorem target_nodes_are_located_by_class:
  assumes "list_all (\<lambda>c. \<not> is_TokenList c) (pre @ mid @ post)"
      and "isinstance a Identifier"
      and "\<not> list_ex (\<lambda>x. isinstance x IdentifierList) (children a)"
      and "list_ex (\<lambda>x. isinstance x IdentifierList) (children b)"
      and "\<not> isinstance b Identifier"
  shows "locate_by_kind (TokenList k (pre @ a # mid @ b # post)) = Some (a, b) \<and>
         tokenize_cols_values (TokenList k (pre @ a # mid @ b # post)) v =
           tokenize_cols_values (TokenList Function [a, b]) v \<and>
         (\<forall>r. tokenize_cols_values (TokenList k (pre @ a # mid @ b # post)) v = Inr r \<longrightarrow>
            (\<exists>cols. declares (TokenList k (pre @ a # mid @ b # post)) a cols \<and>
               map fst r = map (\<lambda>c. str a @ ''.'' @ str c) (filter is_column cols)))"
proof -
  let ?ts = "pre @ a # mid @ b # post"
  have ia: "is_TokenList a"
    using assms(2) by (cases a) auto
  have ib: "is_TokenList b"
    using assms(4) by (cases b) auto
  have "filter is_TokenList pre = []" and "filter is_TokenList mid = []"
    and "filter is_TokenList post = []"
    using assms(1) by (auto simp: list_all_iff filter_empty_conv)
  then have ab: "filter is_TokenList ?ts = [a, b]"
    by (simp add: ia ib)
  have 1: "locate_by_kind (TokenList k ?ts) = Some (a, b)"
  proof -
    have "isinstance c Identifier \<Longrightarrow> is_TokenList c" for c
      by (cases c) auto
    then have "filter (\<lambda>c. isinstance c Identifier) ?ts =
        filter (\<lambda>c. isinstance c Identifier) (filter is_TokenList ?ts)"
      by (rule filter_through_TokenList)
    also have "\<dots> = filter (\<lambda>c. isinstance c Identifier) [a, b]"
      by (simp only: ab)
    also have "\<dots> = [a]"
      using assms(2) assms(5) by simp
    finally have i: "filter (\<lambda>c. isinstance c Identifier) ?ts = [a]" .
    have "list_ex (\<lambda>x. isinstance x IdentifierList) (children c) \<Longrightarrow> is_TokenList c"
      for c by (cases c) auto
    then have "filter (\<lambda>c. list_ex (\<lambda>x. isinstance x IdentifierList) (children c)) ?ts =
        filter (\<lambda>c. list_ex (\<lambda>x. isinstance x IdentifierList) (children c))
          (filter is_TokenList ?ts)"
      by (rule filter_through_TokenList)
    also have "\<dots> =
        filter (\<lambda>c. list_ex (\<lambda>x. isinstance x IdentifierList) (children c)) [a, b]"
      by (simp only: ab)
    also have "\<dots> = [b]"
      using assms(3) assms(4) by simp
    finally have w:
      "filter (\<lambda>c. list_ex (\<lambda>x. isinstance x IdentifierList) (children c)) ?ts = [b]" .
    show ?thesis
      unfolding locate_by_kind_def children.simps i w by simp
  qed
  have 2: "tokenize_cols_values (TokenList k ?ts) v =
      tokenize_cols_values (TokenList Function [a, b]) v"
    using ab by (rule tokenize_only_composites)
  have 3: "\<exists>cols. declares (TokenList k ?ts) a cols \<and>
      map fst r = map (\<lambda>c. str a @ ''.'' @ str c) (filter is_column cols)"
    if r: "tokenize_cols_values (TokenList k ?ts) v = Inr r" for r
  proof -
    from assms(4) obtain x xs where
      x: "filter (\<lambda>tok. isinstance tok IdentifierList) (children b) = x # xs"
      by (cases "filter (\<lambda>tok. isinstance tok IdentifierList) (children b)")
        (auto simp: list_ex_iff filter_empty_conv)
    have fb: "first_IdentifierList b = Inr x"
      using ib x by (cases b) auto
    from r have r': "tokenize_cols_values (TokenList Function [a, b]) v = Inr r"
      by (simp only: 2)
    have d: "declares (TokenList k ?ts) a (children x)"
      unfolding declares_def children.simps ab by (simp add: x)
    from r' obtain y where y: "first_IdentifierList v = Inr y"
      by (cases "first_IdentifierList v") (auto simp: ia ib fb)
    from r' have "map fst r = map (\<lambda>c. str a @ ''.'' @ str c) (filter is_column (children x))"
      by (auto simp: ia ib fb y columns_loop_eq values_loop_eq Let_def comp_def
          split: if_splits)
    with d show ?thesis by blast
  qed
  from 1 2 3 show ?thesis by blast
qed

theorem target_nodes_are_located_by_class_witness:
  "locate_by_kind t1_target =
     Some (name ''t1'',
           TokenList Parenthesis
             [Token Punctuation ''('',
              TokenList IdentifierList
                [name ''col_a'', Token Punctuation '','', Token Whitespace '' '',
                 name ''col_b''],
              Token Punctuation '')'']) \<and>
   str (name ''t1'') = ''t1'' \<and>
   tokenize_cols_values t1_target t1_values =
     Inr [(''t1.col_a'', ''1''), (''t1.col_b'', ''2'')]"
proof -
  let ?b = "TokenList Parenthesis
        [Token Punctuation ''('',
         TokenList IdentifierList
           [name ''col_a'', Token Punctuation '','', Token Whitespace '' '', name ''col_b''],
         Token Punctuation '')'']"
  have t: "t1_target = TokenList Function ([] @ name ''t1'' # [] @ ?b # [])"
    by (simp add: t1_target_def)
  have leaves: "list_all (\<lambda>c. \<not> is_TokenList c) ([] @ [] @ [])"
    by simp
  have a1: "isinstance (name ''t1'') Identifier"
    by (simp add: name_def)
  have a2: "\<not> list_ex (\<lambda>x. isinstance x IdentifierList) (children (name ''t1''))"
    by (simp add: name_def)
  have b1: "list_ex (\<lambda>x. isinstance x IdentifierList) (children ?b)"
    by simp
  have b2: "\<not> isinstance ?b Identifier"
    by simp
  have p: "tokenize_cols_values t1_target t1_values =
      Inr [(''t1.col_a'', ''1''), (''t1.col_b'', ''2'')]"
    by (simp add: t1_target_def t1_values_def name_def)
  from target_nodes_are_located_by_class [OF leaves a1 a2 b1 b2, of Function t1_values]
  have "locate_by_kind t1_target = Some (name ''t1'', ?b)"
    unfolding t by blast
  with p show ?thesis by (simp add: name_def)
qed

end
